theory Spec2Isabelle
  imports Complex_Main "HOL-Library.Monad_Syntax"
begin

section \<open>Text and the three address patterns\<close>

text \<open>
  A Python \<open>str\<close> is modelled as a \<open>string\<close>, one \<open>char\<close> per code point; the model
  covers the code points below 256 (Latin-1). The three patterns of \<open>ADDRESS_PATTERNS\<close>
  use ASCII character classes and \<open>\s\<close> only.
\<close>

definition in_range :: "char \<Rightarrow> char \<Rightarrow> char \<Rightarrow> bool" where
  "in_range lo hi c = ((of_char lo :: nat) \<le> of_char c \<and> (of_char c :: nat) \<le> of_char hi)"

text \<open>The class \<open>[1-9A-HJ-NP-Za-km-z]\<close> of the pattern \<open>solana\<close>.\<close>

definition is_base58 :: "char \<Rightarrow> bool" where
  "is_base58 c = (in_range CHR ''1'' CHR ''9'' c \<or> in_range CHR ''A'' CHR ''H'' c
     \<or> in_range CHR ''J'' CHR ''N'' c \<or> in_range CHR ''P'' CHR ''Z'' c
     \<or> in_range CHR ''a'' CHR ''k'' c \<or> in_range CHR ''m'' CHR ''z'' c)"

text \<open>The class \<open>[a-fA-F0-9]\<close> of the pattern \<open>evm\<close>.\<close>

definition is_hex :: "char \<Rightarrow> bool" where
  "is_hex c = (in_range CHR ''a'' CHR ''f'' c \<or> in_range CHR ''A'' CHR ''F'' c
     \<or> in_range CHR ''0'' CHR ''9'' c)"

text \<open>
  The class \<open>\s\<close> of a \<open>str\<close> pattern, which is also what \<open>str.strip()\<close> removes: the code
  points 9 to 13, 28 to 32, 133 and 160 (among those below 256).
\<close>

definition is_space :: "char \<Rightarrow> bool" where
  "is_space c = (let n = (of_char c :: nat) in
     (9 \<le> n \<and> n \<le> 13) \<or> (28 \<le> n \<and> n \<le> 32) \<or> n = 133 \<or> n = 160)"

definition strip :: "string \<Rightarrow> string" where
  "strip s = rev (dropWhile is_space (rev (dropWhile is_space s)))"

text \<open>
  A pattern is modelled by its matcher at a position: \<open>m s\<close> is the length of the match
  that starts at the first character of \<open>s\<close>, if there is one. None of the three patterns
  looks behind the position or has an alternative that backtracking could change.

  \<open>[1-9A-HJ-NP-Za-km-z]{32,44}\<close>: the repetition is greedy and takes up to 44 characters.
\<close>

definition match_solana :: "string \<Rightarrow> nat option" where
  "match_solana s = (let n = length (takeWhile is_base58 (take 44 s))
     in if 32 \<le> n then Some n else None)"

text \<open>\<open>0x[a-fA-F0-9]{40}\<close>.\<close>

definition match_evm :: "string \<Rightarrow> nat option" where
  "match_evm s = (case s of
       c0 # c1 # r \<Rightarrow>
         if c0 = CHR ''0'' \<and> c1 = CHR ''x'' \<and> 40 \<le> length r \<and> list_all is_hex (take 40 r)
         then Some 42 else None
     | _ \<Rightarrow> None)"

definition strip_prefix :: "string \<Rightarrow> string \<Rightarrow> string option" where
  "strip_prefix p s = (if take (length p) s = p then Some (drop (length p) s) else None)"

text \<open>\<open>http[s]?://[^\s]+\<close>: \<open>url_tail k\<close> is the part \<open>://[^\s]+\<close> behind \<open>k\<close> matched characters; the
  optional \<open>s\<close> is tried first, then its absence.\<close>

definition url_tail :: "nat \<Rightarrow> string \<Rightarrow> nat option" where
  "url_tail k r = (case strip_prefix ''://'' r of
       None \<Rightarrow> None
     | Some t \<Rightarrow> (let n = length (takeWhile (\<lambda>c. \<not> is_space c) t)
                 in if 1 \<le> n then Some (k + 3 + n) else None))"

definition match_url :: "string \<Rightarrow> nat option" where
  "match_url s = (case strip_prefix ''http'' s of
       None \<Rightarrow> None
     | Some r \<Rightarrow>
         (case (case strip_prefix ''s'' r of Some r' \<Rightarrow> url_tail 5 r' | None \<Rightarrow> None) of
            Some n \<Rightarrow> Some n
          | None \<Rightarrow> url_tail 4 r))"

text \<open>
  \<open>re.finditer\<close>: the scan goes left to right; at a position where the pattern matches, the
  match is reported and the scan goes on behind it, elsewhere it goes on one character
  further. The offset of each match is kept. All three patterns consume at least one
  character (\<open>match_pos\<close> below), so the empty text has no match and the case of an empty
  match does not arise.
\<close>

function finditer :: "(string \<Rightarrow> nat option) \<Rightarrow> nat \<Rightarrow> string \<Rightarrow> (nat \<times> string) list" where
  "finditer m off s =
     (if s = [] then []
      else case m s of
             Some n \<Rightarrow>
               if 0 < n \<and> n \<le> length s
               then (off, take n s) # finditer m (off + n) (drop n s)
               else finditer m (off + 1) (tl s)
           | None \<Rightarrow> finditer m (off + 1) (tl s))"
  by pat_completeness auto
termination
  by (relation "measure (\<lambda>(m, off, s). length s)") auto

declare finditer.simps [simp del]

text \<open>\<open>re.findall\<close> of a pattern without groups: the matched texts.\<close>

definition findall :: "(string \<Rightarrow> nat option) \<Rightarrow> string \<Rightarrow> string list" where
  "findall m s = map snd (finditer m 0 s)"

text \<open>\<open>re.fullmatch\<close>: the match at the start has to cover the whole text.\<close>

definition fullmatch :: "(string \<Rightarrow> nat option) \<Rightarrow> string \<Rightarrow> bool" where
  "fullmatch m s = (m s = Some (length s))"

text \<open>The dictionary \<open>ADDRESS_PATTERNS\<close>, in its insertion order.\<close>

definition ADDRESS_PATTERNS :: "(string \<times> (string \<Rightarrow> nat option)) list" where
  "ADDRESS_PATTERNS = [(''solana'', match_solana), (''evm'', match_evm), (''url'', match_url)]"

definition detect_address_type :: "string \<Rightarrow> string" where
  "detect_address_type address =
     (if fullmatch match_solana address then ''Solana''
      else if fullmatch match_evm address then ''EVM (Ethereum/BSC)''
      else if fullmatch match_url address then ''URL''
      else ''Unknown'')"

text \<open>The inner loop of the scan: \<open>for match in matches: found.append(...)\<close>.\<close>

fun append_matches :: "string list \<Rightarrow> (string \<times> string) list \<Rightarrow> (string \<times> string) list" where
  "append_matches [] found = found"
| "append_matches (mt # matches) found =
     append_matches matches (found @ [(mt, detect_address_type mt)])"

text \<open>The outer loop: \<open>for key, pattern in ADDRESS_PATTERNS.items()\<close>.\<close>

fun scan_patterns ::
  "(string \<times> (string \<Rightarrow> nat option)) list \<Rightarrow> string \<Rightarrow> (string \<times> string) list \<Rightarrow> (string \<times> string) list" where
  "scan_patterns [] content found = found"
| "scan_patterns ((key, pattern) # ps) content found =
     scan_patterns ps content (append_matches (findall pattern content) found)"

definition scan :: "string \<Rightarrow> (string \<times> string) list" where
  "scan content = scan_patterns ADDRESS_PATTERNS content []"

section \<open>Python values and the operations the resolvers use\<close>

text \<open>
  A decoded JSON document. An object is the list of its entries, read with \<open>map_of\<close>. A
  number is a rational: the finite values of \<open>int\<close> and \<open>float\<close>, without rounding; \<open>nan\<close>
  and the infinities are outside the model.
\<close>

datatype json =
    JNull
  | JBool bool
  | JNum rat
  | JStr string
  | JArr "json list"
  | JObj "(string \<times> json) list"

text \<open>
  Every operation that can raise returns an \<open>option\<close>, \<open>None\<close> standing for a raised
  \<open>Exception\<close>; all handlers of the source catch \<open>Exception\<close> and do not look at its class.
\<close>

fun truthy :: "json \<Rightarrow> bool" where
  "truthy JNull = False"
| "truthy (JBool b) = b"
| "truthy (JNum x) = (x \<noteq> 0)"
| "truthy (JStr s) = (s \<noteq> [])"
| "truthy (JArr xs) = (xs \<noteq> [])"
| "truthy (JObj kvs) = (kvs \<noteq> [])"

text \<open>\<open>a or b\<close>.\<close>

definition py_or :: "json \<Rightarrow> json \<Rightarrow> json" where
  "py_or a b = (if truthy a then a else b)"

text \<open>
  \<open>float(v)\<close>. The conversion of a \<open>str\<close> is the parameter \<open>fl\<close> of the model (\<open>None\<close> where
  \<open>float\<close> raises \<open>ValueError\<close>); \<open>None\<close>, lists and dictionaries raise \<open>TypeError\<close>.
\<close>

fun py_float :: "(string \<Rightarrow> rat option) \<Rightarrow> json \<Rightarrow> rat option" where
  "py_float fl (JNum x) = Some x"
| "py_float fl (JBool b) = Some (if b then 1 else 0)"
| "py_float fl (JStr s) = fl s"
| "py_float fl JNull = None"
| "py_float fl (JArr xs) = None"
| "py_float fl (JObj kvs) = None"

text \<open>\<open>d.get(k, default)\<close>; only a dictionary has \<open>get\<close>.\<close>

fun dict_get :: "json \<Rightarrow> string \<Rightarrow> json \<Rightarrow> json option" where
  "dict_get (JObj kvs) k d = Some (case map_of kvs k of Some v \<Rightarrow> v | None \<Rightarrow> d)"
| "dict_get JNull k d = None"
| "dict_get (JBool b) k d = None"
| "dict_get (JNum x) k d = None"
| "dict_get (JStr s) k d = None"
| "dict_get (JArr xs) k d = None"

text \<open>\<open>len(v)\<close> and the elements that iterating \<open>v\<close> yields.\<close>

fun py_len :: "json \<Rightarrow> nat option" where
  "py_len (JArr xs) = Some (length xs)"
| "py_len (JStr s) = Some (length s)"
| "py_len (JObj kvs) = Some (length kvs)"
| "py_len JNull = None"
| "py_len (JBool b) = None"
| "py_len (JNum x) = None"

fun py_iter :: "json \<Rightarrow> json list option" where
  "py_iter (JArr xs) = Some xs"
| "py_iter (JStr s) = Some (map (\<lambda>c. JStr [c]) s)"
| "py_iter (JObj kvs) = Some (map (\<lambda>kv. JStr (fst kv)) kvs)"
| "py_iter JNull = None"
| "py_iter (JBool b) = None"
| "py_iter (JNum x) = None"

text \<open>\<open>k in v\<close> for a \<open>str\<close> \<open>k\<close>: a key of a dictionary, an element of a list, a substring.\<close>

fun py_in :: "string \<Rightarrow> json \<Rightarrow> bool option" where
  "py_in k (JObj kvs) = Some (k \<in> set (map fst kvs))"
| "py_in k (JArr xs) = Some (JStr k \<in> set xs)"
| "py_in k (JStr s) = Some (list_ex (\<lambda>i. take (length k) (drop i s) = k) [0..<Suc (length s)])"
| "py_in k JNull = None"
| "py_in k (JBool b) = None"
| "py_in k (JNum x) = None"

text \<open>
  \<open>max(items, key=key)\<close>: the key of every item is computed in order, and an item replaces
  the running maximum only when its key is greater, so the first of several maximal items
  is returned.
\<close>

fun max_loop :: "('a \<Rightarrow> rat option) \<Rightarrow> 'a \<Rightarrow> rat \<Rightarrow> 'a list \<Rightarrow> 'a option" where
  "max_loop key best bk [] = Some best"
| "max_loop key best bk (p # ps) =
     (case key p of
        None \<Rightarrow> None
      | Some k \<Rightarrow> if bk < k then max_loop key p k ps else max_loop key best bk ps)"

fun py_max :: "('a \<Rightarrow> rat option) \<Rightarrow> 'a list \<Rightarrow> 'a option" where
  "py_max key [] = None"
| "py_max key (p # ps) = (case key p of None \<Rightarrow> None | Some k \<Rightarrow> max_loop key p k ps)"

text \<open>\<open>float(p.get(k, 0) or 0)\<close>, \<open>float(p.get(k, 0))\<close> and \<open>float(p.get(k1, {}).get(k2, 0) or 0)\<close>.\<close>

definition num1 :: "(string \<Rightarrow> rat option) \<Rightarrow> json \<Rightarrow> string \<Rightarrow> rat option" where
  "num1 fl p k = do { v \<leftarrow> dict_get p k (JNum 0); py_float fl (py_or v (JNum 0)) }"

definition num1_strict :: "(string \<Rightarrow> rat option) \<Rightarrow> json \<Rightarrow> string \<Rightarrow> rat option" where
  "num1_strict fl p k = do { v \<leftarrow> dict_get p k (JNum 0); py_float fl v }"

definition num2 :: "(string \<Rightarrow> rat option) \<Rightarrow> json \<Rightarrow> string \<Rightarrow> string \<Rightarrow> rat option" where
  "num2 fl p k1 k2 = do {
     d \<leftarrow> dict_get p k1 (JObj []);
     v \<leftarrow> dict_get d k2 (JNum 0);
     py_float fl (py_or v (JNum 0)) }"

text \<open>\<open>str.lower()\<close> on the code points below 256.\<close>

definition lower_char :: "char \<Rightarrow> char" where
  "lower_char c = (let n = (of_char c :: nat) in
     if (65 \<le> n \<and> n \<le> 90) \<or> (192 \<le> n \<and> n \<le> 222 \<and> n \<noteq> 215) then char_of (n + 32) else c)"

definition lower :: "string \<Rightarrow> string" where
  "lower s = map lower_char s"

section \<open>The network\<close>

text \<open>
  The answer to one \<open>session.get(url)\<close>: \<open>RequestError\<close> when the request raises (the
  10 second timeout, a connection error), else the status and the decoded body, \<open>None\<close>
  when \<open>response.json()\<close> raises. \<open>session_error\<close> says that opening the client session
  itself raises, the one failure outside the handlers of the single sources.
\<close>

datatype response = RequestError | Response nat "json option"

record network =
  session_error :: bool
  http_get :: "string \<Rightarrow> response"

definition dexscreener_url :: "string \<Rightarrow> string" where
  "dexscreener_url address = ''https://api.dexscreener.com/latest/dex/tokens/'' @ address"

definition jupiter_url :: "string \<Rightarrow> string" where
  "jupiter_url address = ''https://price.jup.ag/v4/price?ids='' @ address"

definition solscan_url :: "string \<Rightarrow> string" where
  "solscan_url address = ''https://public-api.solscan.io/token/meta?tokenAddress='' @ address"

definition coingecko_url :: "string \<Rightarrow> string" where
  "coingecko_url address =
     ''https://api.coingecko.com/api/v3/simple/token_price/ethereum?contract_addresses='' @ address
     @ ''&vs_currencies=usd&include_24hr_change=true&include_24hr_vol=true&include_market_cap=true''"

section \<open>The market data resolvers\<close>

type_synonym token_data = "string \<rightharpoonup> json"

text \<open>\<open>token_data.update({...})\<close> with a literal of distinct keys.\<close>

definition update :: "token_data \<Rightarrow> (string \<times> json) list \<Rightarrow> token_data" where
  "update td kvs = td ++ map_of kvs"

text \<open>\<open>token_data.get('success')\<close> read as a condition.\<close>

definition succeeded :: "token_data \<Rightarrow> bool" where
  "succeeded td = (case td ''success'' of Some v \<Rightarrow> truthy v | None \<Rightarrow> False)"

text \<open>\<open>try: body except Exception: print(...)\<close> around one source.\<close>

definition absorb :: "(token_data \<Rightarrow> token_data option) \<Rightarrow> token_data \<Rightarrow> token_data" where
  "absorb step td = (case step td of Some td' \<Rightarrow> td' | None \<Rightarrow> td)"

text \<open>The record of the outer handler of both resolvers.\<close>

definition error_record :: token_data where
  "error_record = map_of [(''success'', JBool False), (''name'', JStr ''Unknown Token''),
     (''symbol'', JStr ''UNKNOWN'')]"

text \<open>\<open>pairs and len(pairs) > 0\<close>.\<close>

definition has_pairs :: "json \<Rightarrow> bool option" where
  "has_pairs pairs = (if truthy pairs then do { n \<leftarrow> py_len pairs; Some (0 < n) } else Some False)"

text \<open>The key of the selection: \<open>float(p.get('liquidity', {}).get('usd', 0) or 0)\<close>.\<close>

definition liquidity_usd :: "(string \<Rightarrow> rat option) \<Rightarrow> json \<Rightarrow> rat option" where
  "liquidity_usd fl p = num2 fl p ''liquidity'' ''usd''"

definition most_liquid :: "(string \<Rightarrow> rat option) \<Rightarrow> json \<Rightarrow> json option" where
  "most_liquid fl pairs = do { ps \<leftarrow> py_iter pairs; py_max (liquidity_usd fl) ps }"

subsection \<open>Solana\<close>

definition solana_defaults :: token_data where
  "solana_defaults = map_of [(''name'', JStr ''Unknown Token''), (''symbol'', JStr ''UNKNOWN''),
     (''price'', JNum 0), (''volume24h'', JNum 0), (''priceChange24h'', JNum 0),
     (''priceChange1h'', JNum 0), (''liquidity'', JNum 0), (''fdv'', JNum 0),
     (''marketCap'', JNum 0), (''success'', JBool False)]"

text \<open>The dictionary literal built from the selected pair; any field may raise.\<close>

definition solana_pair_fields :: "(string \<Rightarrow> rat option) \<Rightarrow> json \<Rightarrow> (string \<times> json) list option" where
  "solana_pair_fields fl pair = do {
     base_token \<leftarrow> dict_get pair ''baseToken'' (JObj []);
     name \<leftarrow> dict_get base_token ''name'' (JStr ''Unknown Token'');
     symbol \<leftarrow> dict_get base_token ''symbol'' (JStr ''UNKNOWN'');
     price \<leftarrow> num1 fl pair ''priceUsd'';
     volume24h \<leftarrow> num2 fl pair ''volume'' ''h24'';
     liquidity \<leftarrow> num2 fl pair ''liquidity'' ''usd'';
     fdv \<leftarrow> num1 fl pair ''fdv'';
     marketCap \<leftarrow> num1 fl pair ''marketCap'';
     priceChange24h \<leftarrow> num2 fl pair ''priceChange'' ''h24'';
     priceChange1h \<leftarrow> num2 fl pair ''priceChange'' ''h1'';
     Some [(''name'', name), (''symbol'', symbol), (''price'', JNum price),
           (''volume24h'', JNum volume24h), (''liquidity'', JNum liquidity), (''fdv'', JNum fdv),
           (''marketCap'', JNum marketCap), (''priceChange24h'', JNum priceChange24h),
           (''priceChange1h'', JNum priceChange1h), (''success'', JBool True)] }"

text \<open>The body of the first \<open>try\<close>: DexScreener.\<close>

definition solana_dexscreener ::
  "(string \<Rightarrow> rat option) \<Rightarrow> response \<Rightarrow> token_data \<Rightarrow> token_data option" where
  "solana_dexscreener fl r token_data = (case r of
       RequestError \<Rightarrow> None
     | Response status body \<Rightarrow>
         if status = 200 then do {
           data \<leftarrow> body;
           pairs \<leftarrow> dict_get data ''pairs'' (JArr []);
           nonempty \<leftarrow> has_pairs pairs;
           if nonempty then do {
             pair \<leftarrow> most_liquid fl pairs;
             fields \<leftarrow> solana_pair_fields fl pair;
             Some (update token_data fields) }
           else Some token_data }
         else Some token_data)"

text \<open>The body of the second \<open>try\<close>: the Jupiter price.\<close>

definition jupiter ::
  "(string \<Rightarrow> rat option) \<Rightarrow> string \<Rightarrow> response \<Rightarrow> token_data \<Rightarrow> token_data option" where
  "jupiter fl address r token_data = (case r of
       RequestError \<Rightarrow> None
     | Response status body \<Rightarrow>
         if status = 200 then do {
           data \<leftarrow> body;
           d \<leftarrow> dict_get data ''data'' (JObj []);
           price_data \<leftarrow> dict_get d address JNull;
           if truthy price_data then do {
             price \<leftarrow> num1_strict fl price_data ''price'';
             Some (update token_data [(''price'', JNum price), (''success'', JBool True)]) }
           else Some token_data }
         else Some token_data)"

text \<open>The body of the third \<open>try\<close>: the Solscan metadata.\<close>

definition solscan :: "response \<Rightarrow> token_data \<Rightarrow> token_data option" where
  "solscan r token_data = (case r of
       RequestError \<Rightarrow> None
     | Response status body \<Rightarrow>
         if status = 200 then do {
           data \<leftarrow> body;
           named \<leftarrow> (if truthy data then py_in ''name'' data else Some False);
           if named then do {
             name \<leftarrow> dict_get data ''name'' (JStr ''Unknown Token'');
             symbol \<leftarrow> dict_get data ''symbol'' (JStr ''UNKNOWN'');
             Some (update token_data [(''name'', name), (''symbol'', symbol)]) }
           else Some token_data }
         else Some token_data)"

text \<open>
  \<open>get_solana_token_data\<close> returns the URLs it requested, in order, and the record.
  \<open>token_data['name']\<close> raises \<open>KeyError\<close> into the outer handler when the key is absent.
\<close>

definition get_solana_token_data ::
  "(string \<Rightarrow> rat option) \<Rightarrow> network \<Rightarrow> string \<Rightarrow> string list \<times> token_data" where
  "get_solana_token_data fl net address =
     (if session_error net then ([], error_record)
      else
        let td1 = absorb (solana_dexscreener fl (http_get net (dexscreener_url address)))
                    solana_defaults;
            q1 = [dexscreener_url address];
            (q2, td2) =
              (if \<not> succeeded td1
               then (q1 @ [jupiter_url address],
                     absorb (jupiter fl address (http_get net (jupiter_url address))) td1)
               else (q1, td1))
        in case td2 ''name'' of
             None \<Rightarrow> (q2, error_record)
           | Some name \<Rightarrow>
               if name = JStr ''Unknown Token''
               then (q2 @ [solscan_url address],
                     absorb (solscan (http_get net (solscan_url address))) td2)
               else (q2, td2))"

subsection \<open>EVM\<close>

definition evm_defaults :: token_data where
  "evm_defaults = map_of [(''name'', JStr ''Unknown Token''), (''symbol'', JStr ''UNKNOWN''),
     (''price'', JNum 0), (''volume24h'', JNum 0), (''priceChange24h'', JNum 0),
     (''priceChange1h'', JNum 0), (''liquidity'', JNum 0), (''marketCap'', JNum 0),
     (''success'', JBool False)]"

definition evm_pair_fields :: "(string \<Rightarrow> rat option) \<Rightarrow> json \<Rightarrow> (string \<times> json) list option" where
  "evm_pair_fields fl pair = do {
     base_token \<leftarrow> dict_get pair ''baseToken'' (JObj []);
     name \<leftarrow> dict_get base_token ''name'' (JStr ''Unknown Token'');
     symbol \<leftarrow> dict_get base_token ''symbol'' (JStr ''UNKNOWN'');
     price \<leftarrow> num1 fl pair ''priceUsd'';
     volume24h \<leftarrow> num2 fl pair ''volume'' ''h24'';
     liquidity \<leftarrow> num2 fl pair ''liquidity'' ''usd'';
     marketCap \<leftarrow> num1 fl pair ''marketCap'';
     priceChange24h \<leftarrow> num2 fl pair ''priceChange'' ''h24'';
     priceChange1h \<leftarrow> num2 fl pair ''priceChange'' ''h1'';
     Some [(''name'', name), (''symbol'', symbol), (''price'', JNum price),
           (''volume24h'', JNum volume24h), (''liquidity'', JNum liquidity),
           (''marketCap'', JNum marketCap), (''priceChange24h'', JNum priceChange24h),
           (''priceChange1h'', JNum priceChange1h), (''success'', JBool True)] }"

definition evm_dexscreener ::
  "(string \<Rightarrow> rat option) \<Rightarrow> response \<Rightarrow> token_data \<Rightarrow> token_data option" where
  "evm_dexscreener fl r token_data = (case r of
       RequestError \<Rightarrow> None
     | Response status body \<Rightarrow>
         if status = 200 then do {
           data \<leftarrow> body;
           pairs \<leftarrow> dict_get data ''pairs'' (JArr []);
           nonempty \<leftarrow> has_pairs pairs;
           if nonempty then do {
             pair \<leftarrow> most_liquid fl pairs;
             fields \<leftarrow> evm_pair_fields fl pair;
             Some (update token_data fields) }
           else Some token_data }
         else Some token_data)"

text \<open>The body of the second \<open>try\<close>: CoinGecko, read under \<open>address.lower()\<close>.\<close>

definition coingecko ::
  "(string \<Rightarrow> rat option) \<Rightarrow> string \<Rightarrow> response \<Rightarrow> token_data \<Rightarrow> token_data option" where
  "coingecko fl address r token_data = (case r of
       RequestError \<Rightarrow> None
     | Response status body \<Rightarrow>
         if status = 200 then do {
           data \<leftarrow> body;
           token_info \<leftarrow> dict_get data (lower address) JNull;
           if truthy token_info then do {
             price \<leftarrow> num1_strict fl token_info ''usd'';
             priceChange24h \<leftarrow> num1 fl token_info ''usd_24h_change'';
             volume24h \<leftarrow> num1 fl token_info ''usd_24h_vol'';
             marketCap \<leftarrow> num1 fl token_info ''usd_market_cap'';
             Some (update token_data [(''price'', JNum price),
                     (''priceChange24h'', JNum priceChange24h), (''volume24h'', JNum volume24h),
                     (''marketCap'', JNum marketCap), (''success'', JBool True)]) }
           else Some token_data }
         else Some token_data)"

definition get_evm_token_data ::
  "(string \<Rightarrow> rat option) \<Rightarrow> network \<Rightarrow> string \<Rightarrow> string list \<times> token_data" where
  "get_evm_token_data fl net address =
     (if session_error net then ([], error_record)
      else
        let td1 = absorb (evm_dexscreener fl (http_get net (dexscreener_url address)))
                    evm_defaults;
            q1 = [dexscreener_url address]
        in if \<not> succeeded td1
           then (q1 @ [coingecko_url address],
                 absorb (coingecko fl address (http_get net (coingecko_url address))) td1)
           else (q1, td1))"

section \<open>Formatting\<close>

text \<open>
  A \<open>float\<close> printed with a fixed number of decimals (\<open>f"{x:.2f}"\<close>): the value is rounded to
  the nearest multiple of the last decimal place, a tie to the even one, and printed with
  its sign, its integer part and exactly that many decimals.
\<close>

definition digit_char :: "nat \<Rightarrow> char" where
  "digit_char n = char_of (48 + n)"

function str_nat :: "nat \<Rightarrow> string" where
  "str_nat n = (if n < 10 then [digit_char n] else str_nat (n div 10) @ [digit_char (n mod 10)])"
  by pat_completeness auto
termination
  by (relation "measure (\<lambda>n. n)") auto

declare str_nat.simps [simp del]

fun decimals :: "nat \<Rightarrow> nat \<Rightarrow> string" where
  "decimals 0 m = []"
| "decimals (Suc d) m = decimals d (m div 10) @ [digit_char (m mod 10)]"

definition round_half_even :: "rat \<Rightarrow> nat" where
  "round_half_even x = (let n = nat \<lfloor>x\<rfloor>; r = x - of_nat n in
     if r < 1 / 2 then n else if 1 / 2 < r then n + 1 else if even n then n else n + 1)"

definition fmt_fixed :: "nat \<Rightarrow> rat \<Rightarrow> string" where
  "fmt_fixed d x = (let n = round_half_even (\<bar>x\<bar> * 10 ^ d) in
     (if x < 0 then ''-'' else '''') @ str_nat (n div 10 ^ d)
     @ (if d = 0 then '''' else ''.'' @ decimals d (n mod 10 ^ d)))"

text \<open>\<open>v == 0\<close> for a decoded value: a number that is zero, or \<open>False\<close>.\<close>

fun py_eq0 :: "json \<Rightarrow> bool" where
  "py_eq0 (JNum x) = (x = 0)"
| "py_eq0 (JBool b) = (\<not> b)"
| "py_eq0 JNull = False"
| "py_eq0 (JStr s) = False"
| "py_eq0 (JArr xs) = False"
| "py_eq0 (JObj kvs) = False"

text \<open>The numeric value of a number or a boolean; comparing or formatting anything else raises.\<close>

fun num_of :: "json \<Rightarrow> rat option" where
  "num_of (JNum x) = Some x"
| "num_of (JBool b) = Some (if b then 1 else 0)"
| "num_of JNull = None"
| "num_of (JStr s) = None"
| "num_of (JArr xs) = None"
| "num_of (JObj kvs) = None"

definition format_number :: "(string \<Rightarrow> rat option) \<Rightarrow> json \<Rightarrow> string" where
  "format_number fl num =
     (if num = JNull \<or> py_eq0 num then ''N/A''
      else case py_float fl num of
             None \<Rightarrow> ''N/A''
           | Some x \<Rightarrow>
               if 1000000000 \<le> x then ''$'' @ fmt_fixed 2 (x / 1000000000) @ ''B''
               else if 1000000 \<le> x then ''$'' @ fmt_fixed 2 (x / 1000000) @ ''M''
               else if 1000 \<le> x then ''$'' @ fmt_fixed 2 (x / 1000) @ ''K''
               else if 1 \<le> x then ''$'' @ fmt_fixed 4 x
               else ''$'' @ fmt_fixed 8 x)"

text \<open>
  \<open>format_percentage\<close>: the coloured circle in front of the text is a constructor, the text
  is printed with its sign (\<open>+.2f\<close>).
\<close>

datatype circle = GreenCircle | RedCircle

definition format_percentage :: "json \<Rightarrow> (circle option \<times> string) option" where
  "format_percentage v =
     (if v = JNull \<or> py_eq0 v then Some (None, ''0.00%'')
      else case num_of v of
             None \<Rightarrow> None
           | Some x \<Rightarrow>
               Some (Some (if 0 < x then GreenCircle else RedCircle),
                     (if 0 \<le> x then ''+'' else '''') @ fmt_fixed 2 x @ ''%''))"

section \<open>The message handler\<close>

text \<open>
  The replies are embeds. Their fixed texts (titles, warnings, reminders) are constructors;
  what is computed from the match and the record is kept as data. Colours are the numbers
  of the source (\<open>0xffaa00\<close> is 16755200, and so on).
\<close>

datatype embed_field =
    Status
  | MarketData "(string \<times> string) list"
  | Performance "(string \<times> circle option \<times> string) list"
  | DataStatusLive
  | MarketDataUnavailable "string list"
  | PossibleReasons
  | DataStatusNone
  | SafetyReminders
  | QuickAccess "(string \<times> string) list"
  | UrlDetected
  | Blockchain string

datatype embed_title = Fetching | TokenTitle json json

datatype embed_description = AddressChain string string string | Contract string string

record embed =
  title :: embed_title
  description :: embed_description
  color :: nat
  embed_fields :: "embed_field list"
  footer :: "(string \<times> string option) option"

record message =
  author :: string
  display_name :: string
  avatar :: "string option"
  content :: string

text \<open>
  What the handler does, in order: the pattern scans, the messages it sends and edits,
  the URLs it requests, the dispatch to the commands. Calls to Discord are taken to succeed.
\<close>

datatype event =
    Findall string string
  | ChannelSend embed
  | HttpGet string
  | MessageEdit embed
  | MessageEditError string string
  | ProcessCommands

text \<open>\<open>s[-n:]\<close> and \<open>token_data.get(k, default)\<close>.\<close>

definition last_n :: "nat \<Rightarrow> string \<Rightarrow> string" where
  "last_n n s = drop (length s - n) s"

definition td_get :: "token_data \<Rightarrow> string \<Rightarrow> json \<Rightarrow> json" where
  "td_get td k d = (case td k of Some v \<Rightarrow> v | None \<Rightarrow> d)"

definition loading_embed :: "string \<Rightarrow> string \<Rightarrow> embed" where
  "loading_embed address addr_type =
     \<lparr>title = Fetching,
      description = AddressChain (take 20 address) (last_n 10 address) addr_type,
      color = 16755200, embed_fields = [Status], footer = None\<rparr>"

text \<open>\<open>if v > 0: price_info += line\<close> and \<open>if v != 0: perf_info += line\<close>.\<close>

definition info_line :: "(string \<Rightarrow> rat option) \<Rightarrow> string \<Rightarrow> json \<Rightarrow> (string \<times> string) list option" where
  "info_line fl label v = do {
     x \<leftarrow> num_of v;
     Some (if 0 < x then [(label, format_number fl v)] else []) }"

definition perf_line :: "string \<Rightarrow> json \<Rightarrow> (string \<times> circle option \<times> string) list option" where
  "perf_line label v =
     (if \<not> py_eq0 v then do { p \<leftarrow> format_percentage v; Some [(label, p)] } else Some [])"

definition solana_fields ::
  "(string \<Rightarrow> rat option) \<Rightarrow> string \<Rightarrow> token_data \<Rightarrow> embed_field list option" where
  "solana_fields fl address token_data = do {
     data_fields \<leftarrow>
       (if succeeded token_data then do {
          let price = td_get token_data ''price'' (JNum 0);
          let volume = td_get token_data ''volume24h'' (JNum 0);
          let liquidity = td_get token_data ''liquidity'' (JNum 0);
          let fdv = td_get token_data ''fdv'' (JNum 0);
          let mcap = td_get token_data ''marketCap'' (JNum 0);
          let change24h = td_get token_data ''priceChange24h'' (JNum 0);
          let change1h = td_get token_data ''priceChange1h'' (JNum 0);
          l1 \<leftarrow> info_line fl ''MCap'' mcap;
          l2 \<leftarrow> info_line fl ''FDV'' fdv;
          l3 \<leftarrow> info_line fl ''Liquidity'' liquidity;
          l4 \<leftarrow> info_line fl ''Volume 24h'' volume;
          p1 \<leftarrow> perf_line ''1H'' change1h;
          p2 \<leftarrow> perf_line ''24H'' change24h;
          Some [MarketData ((''Price'', format_number fl price) # l1 @ l2 @ l3 @ l4),
                Performance (p1 @ p2), DataStatusLive] }
        else Some [MarketDataUnavailable [''Price'', ''FDV'', ''Liquidity'', ''Volume''],
                   PossibleReasons, DataStatusNone]);
     Some (data_fields @
       [SafetyReminders,
        QuickAccess [(''Solscan'', ''https://solscan.io/token/'' @ address),
                     (''Birdeye'', ''https://birdeye.so/token/'' @ address),
                     (''DexScreener'', ''https://dexscreener.com/solana/'' @ address),
                     (''Jupiter'', ''https://jup.ag/swap/SOL-'' @ address)]]) }"

definition evm_fields ::
  "(string \<Rightarrow> rat option) \<Rightarrow> string \<Rightarrow> token_data \<Rightarrow> embed_field list option" where
  "evm_fields fl address token_data = do {
     data_fields \<leftarrow>
       (if succeeded token_data then do {
          let price = td_get token_data ''price'' (JNum 0);
          let volume = td_get token_data ''volume24h'' (JNum 0);
          let liquidity = td_get token_data ''liquidity'' (JNum 0);
          let mcap = td_get token_data ''marketCap'' (JNum 0);
          let change24h = td_get token_data ''priceChange24h'' (JNum 0);
          let change1h = td_get token_data ''priceChange1h'' (JNum 0);
          l1 \<leftarrow> info_line fl ''MCap'' mcap;
          l3 \<leftarrow> info_line fl ''Liquidity'' liquidity;
          l4 \<leftarrow> info_line fl ''Volume 24h'' volume;
          p1 \<leftarrow> perf_line ''1H'' change1h;
          p2 \<leftarrow> perf_line ''24H'' change24h;
          Some [MarketData ((''Price'', format_number fl price) # l1 @ l3 @ l4),
                Performance (p1 @ p2), DataStatusLive] }
        else Some [MarketDataUnavailable [''Price'', ''MCap'', ''Liquidity'', ''Volume''],
                   PossibleReasons, DataStatusNone]);
     Some (data_fields @
       [QuickAccess [(''Etherscan'', ''https://etherscan.io/address/'' @ address),
                     (''DexTools'', ''https://www.dextools.io/app/en/ether/pair-explorer/'' @ address),
                     (''DexScreener'', ''https://dexscreener.com/ethereum/'' @ address),
                     (''Uniswap'', ''https://app.uniswap.org/#/tokens/ethereum/'' @ address)]]) }"

text \<open>The final embed of one match; \<open>None\<close> when building it raises.\<close>

definition final_embed ::
  "(string \<Rightarrow> rat option) \<Rightarrow> message \<Rightarrow> string \<Rightarrow> string \<Rightarrow> token_data \<Rightarrow> embed option" where
  "final_embed fl msg address addr_type token_data = do {
     let token_name = td_get token_data ''name'' (JStr ''Unknown Token'');
     let token_symbol = td_get token_data ''symbol'' (JStr ''UNKNOWN'');
     price_change \<leftarrow> num_of (td_get token_data ''priceChange24h'' (JNum 0));
     let embed_color = (if 0 < price_change then 65416
                        else if price_change < 0 then 16739179 else 5793266);
     type_fields \<leftarrow>
       (if addr_type = ''Solana'' then solana_fields fl address token_data
        else if addr_type = ''EVM (Ethereum/BSC)'' then evm_fields fl address token_data
        else if addr_type = ''URL'' then Some [UrlDetected]
        else Some []);
     Some \<lparr>title = TokenTitle token_name token_symbol,
           description = Contract (take 25 address) (last_n 15 address),
           color = (if succeeded token_data then embed_color else 8421504),
           embed_fields = type_fields @ [Blockchain addr_type],
           footer = Some (display_name msg, avatar msg)\<rparr> }"

text \<open>\<open>token_data = {'success': False}\<close> and the choice of the resolver by the type.\<close>

definition fetch_token_data ::
  "(string \<Rightarrow> rat option) \<Rightarrow> network \<Rightarrow> string \<Rightarrow> string \<Rightarrow> string list \<times> token_data" where
  "fetch_token_data fl net address addr_type =
     (if addr_type = ''Solana'' then get_solana_token_data fl net address
      else if addr_type = ''EVM (Ethereum/BSC)'' then get_evm_token_data fl net address
      else ([], map_of [(''success'', JBool False)]))"

text \<open>The body of the loop over \<open>found\<close>, for one match.\<close>

definition process_match ::
  "(string \<Rightarrow> rat option) \<Rightarrow> network \<Rightarrow> message \<Rightarrow> string \<times> string \<Rightarrow> event list" where
  "process_match fl net msg m =
     (let address = fst m; addr_type = snd m;
          (requests, token_data) = fetch_token_data fl net address addr_type
      in ChannelSend (loading_embed address addr_type) # map HttpGet requests @
         [case final_embed fl msg address addr_type token_data of
            Some e \<Rightarrow> MessageEdit e
          | None \<Rightarrow> MessageEditError addr_type address])"

definition on_message ::
  "(string \<Rightarrow> rat option) \<Rightarrow> string \<Rightarrow> network \<Rightarrow> message \<Rightarrow> event list" where
  "on_message fl bot_user net msg =
     (if author msg = bot_user then []
      else
        let text = strip (content msg);
            found = scan text
        in map (\<lambda>kp. Findall (fst kp) text) ADDRESS_PATTERNS
           @ concat (map (process_match fl net msg) found)
           @ [ProcessCommands])"

section \<open>Notions used in the statements\<close>



text \<open>
  The key is present with a number, or with a boolean; the shape of the record of either
  resolver: the flag, and a number under each numeric key the resolver has.
\<close>

fun is_number :: "json option \<Rightarrow> bool" where
  "is_number (Some (JNum x)) = True"
| "is_number _ = False"

fun is_bool :: "json option \<Rightarrow> bool" where
  "is_bool (Some (JBool b)) = True"
| "is_bool _ = False"

definition solana_record :: "token_data \<Rightarrow> bool" where
  "solana_record td = (is_bool (td ''success'') \<and> td ''name'' \<noteq> None \<and>
     list_all (\<lambda>k. is_number (td k))
       [''price'', ''volume24h'', ''liquidity'', ''fdv'', ''marketCap'', ''priceChange1h'',
        ''priceChange24h''])"

definition evm_record :: "token_data \<Rightarrow> bool" where
  "evm_record td = (is_bool (td ''success'') \<and> td ''fdv'' = None \<and>
     list_all (\<lambda>k. is_number (td k))
       [''price'', ''volume24h'', ''liquidity'', ''marketCap'', ''priceChange1h'',
        ''priceChange24h''])"

text \<open>A source that gives nothing: the request fails, the status is not 200, or no JSON.\<close>

fun no_data :: "response \<Rightarrow> bool" where
  "no_data RequestError = True"
| "no_data (Response status body) = (status \<noteq> 200 \<or> body = None)"

text \<open>
  The price aggregator gives no record for the address: the request fails, the status is
  not 200, the body is no JSON object, its \<open>data\<close> is no object, or the entry of the address
  is absent, null or empty.
\<close>

fun no_price_record :: "string \<Rightarrow> response \<Rightarrow> bool" where
  "no_price_record address RequestError = True"
| "no_price_record address (Response status None) = True"
| "no_price_record address (Response status (Some data)) =
     (status \<noteq> 200 \<or>
      (case dict_get data ''data'' (JObj []) of
         None \<Rightarrow> True
       | Some d \<Rightarrow> (case dict_get d address JNull of None \<Rightarrow> True | Some v \<Rightarrow> \<not> truthy v)))"

section \<open>Properties of the scan\<close>

subsection \<open>Characters\<close>

lemma char_eq_code: "(c = d) = ((of_char c :: nat) = of_char d)"
  by simp

lemma hex_base58: "is_hex c \<Longrightarrow> c \<noteq> CHR ''0'' \<Longrightarrow> is_base58 c"
  unfolding is_hex_def is_base58_def in_range_def char_eq_code[of c]
  by simp arith

lemma zero_not_base58: "\<not> is_base58 CHR ''0''"
  by (simp add: is_base58_def in_range_def)

lemma hex_not_h: "is_hex c \<Longrightarrow> c \<noteq> CHR ''h''"
  unfolding is_hex_def in_range_def char_eq_code[of c]
  by simp arith

subsection \<open>The matchers\<close>

lemma takeWhile_take_length: "takeWhile P xs = take (length (takeWhile P xs)) xs"
  by (induction xs) auto

lemma match_solana_SomeD:
  assumes "match_solana s = Some n"
  shows "32 \<le> n" "n \<le> 44" "n \<le> length s" "take n s = takeWhile is_base58 (take 44 s)"
proof -
  let ?w = "takeWhile is_base58 (take 44 s)"
  from assms have n: "n = length ?w" and "32 \<le> length ?w"
    by (auto simp: match_solana_def Let_def split: if_splits)
  then show "32 \<le> n" by simp
  have le: "length ?w \<le> length (take 44 s)" by (rule length_takeWhile_le)
  then show "n \<le> 44" "n \<le> length s" using n by auto
  have "?w = take n (take 44 s)" unfolding n by (rule takeWhile_take_length)
  also have "\<dots> = take n s" using \<open>n \<le> 44\<close> by (simp add: min_def)
  finally show "take n s = ?w" by simp
qed

lemma match_solana_fullmatch:
  assumes "match_solana s = Some n"
  shows "fullmatch match_solana (take n s)"
proof -
  note d = match_solana_SomeD[OF assms]
  have a: "take 44 (take n s) = take n s" using d(2) by (simp add: min_def)
  have b: "takeWhile is_base58 (take n s) = take n s"
    unfolding d(4) by simp
  have c: "length (take n s) = n" using d(3) by simp
  show ?thesis
    unfolding fullmatch_def match_solana_def Let_def a b c using d(1) by simp
qed

lemma match_url_h: "c \<noteq> CHR ''h'' \<Longrightarrow> match_url (c # t) = None"
  by (simp add: match_url_def strip_prefix_def)

subsection \<open>The scan of one pattern\<close>

lemma finditer_all:
  "(\<And>t n. m t = Some n \<Longrightarrow> P (take n t)) \<Longrightarrow> \<forall>x \<in> set (finditer m off s). P (snd x)"
proof (induction m off s rule: finditer.induct)
  case (1 m off s)
  show ?case
    apply (subst finditer.simps)
    using 1
    by (auto split: option.splits)
qed

lemma finditer_none:
  "(\<And>c t. c \<in> set s \<Longrightarrow> m (c # t) = None) \<Longrightarrow> finditer m off s = []"
proof (induction s arbitrary: off)
  case Nil
  show ?case by (simp add: finditer.simps)
next
  case (Cons c s)
  have "m (c # s) = None" using Cons.prems by simp
  then have "finditer m off (c # s) = finditer m (off + 1) s"
    by (subst finditer.simps) simp
  then show ?case using Cons by simp
qed




subsection \<open>The scan of all patterns\<close>

lemma append_matches_eq:
  "append_matches ms found = found @ map (\<lambda>mt. (mt, detect_address_type mt)) ms"
  by (induction ms arbitrary: found) auto

lemma scan_eq:
  "scan s =
     map (\<lambda>mt. (mt, detect_address_type mt)) (findall match_solana s) @
     map (\<lambda>mt. (mt, detect_address_type mt)) (findall match_evm s) @
     map (\<lambda>mt. (mt, detect_address_type mt)) (findall match_url s)"
  by (simp add: scan_def ADDRESS_PATTERNS_def append_matches_eq)

lemma findall_solana_tag:
  "map (\<lambda>mt. (mt, detect_address_type mt)) (findall match_solana s) =
   map (\<lambda>mt. (mt, ''Solana'')) (findall match_solana s)"
proof -
  have "\<forall>x \<in> set (finditer match_solana 0 s). fullmatch match_solana (snd x)"
    by (rule finditer_all) (rule match_solana_fullmatch)
  then show ?thesis
    by (auto simp: findall_def detect_address_type_def)
qed

lemma evm_shape_facts:
  assumes "length hs = 40" "list_all is_hex hs"
  defines "s \<equiv> CHR ''0'' # CHR ''x'' # hs"
  shows "match_evm s = Some 42" "\<not> fullmatch match_solana s" "length s = 42"
    "findall match_url s = []"
proof -
  show "match_evm s = Some 42" using assms by (simp add: match_evm_def)
  show "\<not> fullmatch match_solana s"
    by (simp add: fullmatch_def match_solana_def s_def zero_not_base58)
  show "length s = 42" using assms by simp
  have "\<And>c. c \<in> set s \<Longrightarrow> c \<noteq> CHR ''h''"
    using assms(2) hex_not_h by (auto simp: s_def list_all_iff)
  then have "finditer match_url 0 s = []"
    by (intro finditer_none match_url_h)
  then show "findall match_url s = []" by (simp add: findall_def)
qed

text \<open>
  C1 (as amended). For every text made of \<open>0x\<close> and 40 hex characters, the type detected
  for the text is EVM, and the scan reports the text once, tagged EVM, as its last entry;
  every entry before it is a match of the Solana pattern tagged Solana, and none of these
  is the text itself; no entry is tagged URL. Solana-tagged matches of parts of the text
  are not excluded: the Solana pattern is not anchored and matches any run of 32 to 44
  base58 characters inside the text.
\<close>

theorem evm_address_scan:
  assumes "length hs = 40" and "list_all is_hex hs"
  shows "detect_address_type (CHR ''0'' # CHR ''x'' # hs) = ''EVM (Ethereum/BSC)''
     \<and> scan (CHR ''0'' # CHR ''x'' # hs) =
         map (\<lambda>mt. (mt, ''Solana'')) (findall match_solana (CHR ''0'' # CHR ''x'' # hs))
         @ [(CHR ''0'' # CHR ''x'' # hs, ''EVM (Ethereum/BSC)'')]
     \<and> CHR ''0'' # CHR ''x'' # hs \<notin> set (findall match_solana (CHR ''0'' # CHR ''x'' # hs))"
proof -
  let ?s = "CHR ''0'' # CHR ''x'' # hs"
  note f = evm_shape_facts[OF assms]
  have full: "fullmatch match_evm ?s" using f(1,3) by (simp add: fullmatch_def)
  have dt: "detect_address_type ?s = ''EVM (Ethereum/BSC)''"
    using f(2) full by (simp add: detect_address_type_def)
  have "finditer match_evm 0 ?s = [(0, ?s)]"
    using f(1,3) by (subst finditer.simps) (simp add: finditer.simps)
  then have evm: "findall match_evm ?s = [?s]" by (simp add: findall_def)
  have "\<forall>x \<in> set (finditer match_solana 0 ?s). fullmatch match_solana (snd x)"
    by (rule finditer_all) (rule match_solana_fullmatch)
  then have notin: "?s \<notin> set (findall match_solana ?s)"
    using f(2) by (auto simp: findall_def)
  have "scan ?s = map (\<lambda>mt. (mt, ''Solana'')) (findall match_solana ?s) @ [(?s, ''EVM (Ethereum/BSC)'')]"
    unfolding scan_eq findall_solana_tag evm f(4) using dt by simp
  then show ?thesis using dt notin by blast
qed

theorem evm_address_scan_witness:
  "length ''00000000219ab540356cBB839Cbe05303d7705Fa'' = 40
   \<and> list_all is_hex ''00000000219ab540356cBB839Cbe05303d7705Fa''
   \<and> scan ''0x00000000219ab540356cBB839Cbe05303d7705Fa'' =
       [(''0x00000000219ab540356cBB839Cbe05303d7705Fa'', ''EVM (Ethereum/BSC)'')]"
proof -
  have a: "length ''00000000219ab540356cBB839Cbe05303d7705Fa'' = 40" by simp
  have b: "list_all is_hex ''00000000219ab540356cBB839Cbe05303d7705Fa''" by code_simp
  have c: "findall match_solana ''0x00000000219ab540356cBB839Cbe05303d7705Fa'' = []" by code_simp
  show ?thesis using evm_address_scan[OF a b] a b c by simp
qed

text \<open>
  The claim as stated fails at \<open>0x\<close> followed by forty \<open>1\<close>: the 41 characters behind the
  \<open>0\<close> are base58 characters, and the scan reports them as a match tagged Solana.
\<close>

theorem evm_address_scan_counterexample:
  "length ''1111111111111111111111111111111111111111'' = 40
   \<and> list_all is_hex ''1111111111111111111111111111111111111111''
   \<and> (''x1111111111111111111111111111111111111111'', ''Solana'')
       \<in> set (scan ''0x1111111111111111111111111111111111111111'')"
  by code_simp



section \<open>Properties of the message handler\<close>

text \<open>
  C9. When the author of the message is the bot itself the handler returns at once: its
  trace is empty, so there is no pattern scan, no request, no message sent or edited and
  no command dispatch, whatever the content is.
\<close>

theorem on_message_own_message:
  "author msg = bot_user \<Longrightarrow> on_message fl bot_user net msg = []"
  by (simp add: on_message_def)

theorem on_message_own_message_witness:
  "author \<lparr>author = ''bot'', display_name = ''Scanner'', avatar = None,
           content = ''0x00000000219ab540356cBB839Cbe05303d7705Fa''\<rparr> = ''bot''
   \<and> on_message (\<lambda>s. None) ''bot'' \<lparr>session_error = False, http_get = (\<lambda>u. RequestError)\<rparr>
        \<lparr>author = ''bot'', display_name = ''Scanner'', avatar = None,
         content = ''0x00000000219ab540356cBB839Cbe05303d7705Fa''\<rparr> = []"
  using on_message_own_message
          [of "\<lparr>author = ''bot'', display_name = ''Scanner'', avatar = None,
                content = ''0x00000000219ab540356cBB839Cbe05303d7705Fa''\<rparr>" "''bot''"
              "\<lambda>s. None" "\<lparr>session_error = False, http_get = (\<lambda>u. RequestError)\<rparr>"]
  by simp

lemma fetch_other:
  "addr_type \<noteq> ''Solana'' \<Longrightarrow> addr_type \<noteq> ''EVM (Ethereum/BSC)'' \<Longrightarrow>
   fetch_token_data fl net address addr_type = ([], map_of [(''success'', JBool False)])"
  by (simp add: fetch_token_data_def)

lemma final_embed_other:
  assumes "addr_type \<noteq> ''Solana''" "addr_type \<noteq> ''EVM (Ethereum/BSC)''"
  shows "final_embed fl msg address addr_type (map_of [(''success'', JBool False)]) =
     Some \<lparr>title = TokenTitle (JStr ''Unknown Token'') (JStr ''UNKNOWN''),
           description = Contract (take 25 address) (last_n 15 address),
           color = 8421504,
           embed_fields = (if addr_type = ''URL'' then [UrlDetected] else []) @ [Blockchain addr_type],
           footer = Some (display_name msg, avatar msg)\<rparr>"
  using assms by (simp add: final_embed_def td_get_def succeeded_def)

text \<open>
  C10. For a match whose type is neither Solana nor EVM no resolver is called: no URL is
  requested, the record stays \<open>{'success': False}\<close>, and the handler sends the loading
  embed and edits it into the grey embed of an unknown token whose only fields are, for
  the type URL, the fixed warning \<open>UrlDetected\<close>, and the chain indicator.
\<close>

theorem other_types_not_resolved:
  assumes "addr_type \<noteq> ''Solana''" and "addr_type \<noteq> ''EVM (Ethereum/BSC)''"
  shows "fetch_token_data fl net address addr_type = ([], map_of [(''success'', JBool False)])
     \<and> process_match fl net msg (address, addr_type) =
         [ChannelSend (loading_embed address addr_type),
          MessageEdit \<lparr>title = TokenTitle (JStr ''Unknown Token'') (JStr ''UNKNOWN''),
             description = Contract (take 25 address) (last_n 15 address),
             color = 8421504,
             embed_fields = (if addr_type = ''URL'' then [UrlDetected] else []) @ [Blockchain addr_type],
             footer = Some (display_name msg, avatar msg)\<rparr>]"
  unfolding process_match_def fetch_other[OF assms] Let_def fst_conv snd_conv prod.case
    final_embed_other[OF assms]
  by simp

theorem other_types_not_resolved_witness:
  "''URL'' \<noteq> ''Solana'' \<and> ''URL'' \<noteq> ''EVM (Ethereum/BSC)''
   \<and> detect_address_type ''http://a.io'' = ''URL''
   \<and> process_match (\<lambda>s. None) \<lparr>session_error = False, http_get = (\<lambda>u. RequestError)\<rparr>
        \<lparr>author = ''ann'', display_name = ''Ann'', avatar = None, content = ''see http://a.io''\<rparr>
        (''http://a.io'', ''URL'') =
         [ChannelSend (loading_embed ''http://a.io'' ''URL''),
          MessageEdit \<lparr>title = TokenTitle (JStr ''Unknown Token'') (JStr ''UNKNOWN''),
             description = Contract ''http://a.io'' ''http://a.io'',
             color = 8421504,
             embed_fields = [UrlDetected, Blockchain ''URL''],
             footer = Some (''Ann'', None)\<rparr>]"
proof -
  have a: "''URL'' \<noteq> ''Solana''" and b: "''URL'' \<noteq> ''EVM (Ethereum/BSC)''" by simp_all
  have d: "detect_address_type ''http://a.io'' = ''URL''" by code_simp
  show ?thesis
    using other_types_not_resolved[OF a b, of "\<lambda>s. None"
            "\<lparr>session_error = False, http_get = (\<lambda>u. RequestError)\<rparr>" "''http://a.io''"
            "\<lparr>author = ''ann'', display_name = ''Ann'', avatar = None, content = ''see http://a.io''\<rparr>"] d
    by (simp add: last_n_def)
qed

section \<open>Properties of the formatting\<close>










section \<open>Properties of the resolvers\<close>

subsection \<open>What one source can change\<close>

lemma update_apply:
  "update td kvs k = (case map_of kvs k of Some v \<Rightarrow> Some v | None \<Rightarrow> td k)"
  by (simp add: update_def map_add_def)

lemma absorb_cases:
  "absorb step td = td \<or> step td = Some (absorb step td)"
  by (simp add: absorb_def split: option.splits)

lemma solana_pair_fields_SomeD:
  assumes "solana_pair_fields fl p = Some fs"
  shows "\<exists>name symbol price volume24h liquidity fdv marketCap priceChange24h priceChange1h.
     fs = [(''name'', name), (''symbol'', symbol), (''price'', JNum price),
           (''volume24h'', JNum volume24h), (''liquidity'', JNum liquidity), (''fdv'', JNum fdv),
           (''marketCap'', JNum marketCap), (''priceChange24h'', JNum priceChange24h),
           (''priceChange1h'', JNum priceChange1h), (''success'', JBool True)]"
  using assms unfolding solana_pair_fields_def
  by (auto simp: bind_eq_Some_conv)

lemma evm_pair_fields_SomeD:
  assumes "evm_pair_fields fl p = Some fs"
  shows "\<exists>name symbol price volume24h liquidity marketCap priceChange24h priceChange1h.
     fs = [(''name'', name), (''symbol'', symbol), (''price'', JNum price),
           (''volume24h'', JNum volume24h), (''liquidity'', JNum liquidity),
           (''marketCap'', JNum marketCap), (''priceChange24h'', JNum priceChange24h),
           (''priceChange1h'', JNum priceChange1h), (''success'', JBool True)]"
  using assms unfolding evm_pair_fields_def
  by (auto simp: bind_eq_Some_conv)

lemma solana_dexscreener_SomeD:
  assumes "solana_dexscreener fl r td = Some td'"
  shows "td' = td \<or> (\<exists>p fs. solana_pair_fields fl p = Some fs \<and> td' = update td fs)"
  using assms unfolding solana_dexscreener_def
  by (auto simp: bind_eq_Some_conv split: response.splits if_splits)

lemma evm_dexscreener_SomeD:
  assumes "evm_dexscreener fl r td = Some td'"
  shows "td' = td \<or> (\<exists>p fs. evm_pair_fields fl p = Some fs \<and> td' = update td fs)"
  using assms unfolding evm_dexscreener_def
  by (auto simp: bind_eq_Some_conv split: response.splits if_splits)

lemma jupiter_SomeD:
  assumes "jupiter fl address r td = Some td'"
  shows "td' = td \<or> (\<exists>x. td' = update td [(''price'', JNum x), (''success'', JBool True)])"
  using assms unfolding jupiter_def
  by (auto simp: bind_eq_Some_conv split: response.splits if_splits)

lemma solscan_SomeD:
  assumes "solscan r td = Some td'"
  shows "td' = td \<or> (\<exists>n s. td' = update td [(''name'', n), (''symbol'', s)])"
  using assms unfolding solscan_def
  by (auto simp: bind_eq_Some_conv split: response.splits if_splits)

lemma coingecko_SomeD:
  assumes "coingecko fl address r td = Some td'"
  shows "td' = td \<or> (\<exists>a b c d. td' = update td [(''price'', JNum a),
                     (''priceChange24h'', JNum b), (''volume24h'', JNum c),
                     (''marketCap'', JNum d), (''success'', JBool True)])"
  using assms unfolding coingecko_def
  by (auto simp: bind_eq_Some_conv split: response.splits if_splits)

subsection \<open>The shape of the returned record\<close>

lemma solana_record_defaults: "solana_record solana_defaults"
  by (simp add: solana_record_def solana_defaults_def)

lemma evm_record_defaults: "evm_record evm_defaults"
  by (simp add: evm_record_def evm_defaults_def)

lemma solana_record_dex:
  assumes "solana_record td"
  shows "solana_record (absorb (solana_dexscreener fl r) td)"
proof -
  from absorb_cases[of "solana_dexscreener fl r" td] show ?thesis
  proof
    assume "absorb (solana_dexscreener fl r) td = td"
    then show ?thesis using assms by simp
  next
    assume "solana_dexscreener fl r td = Some (absorb (solana_dexscreener fl r) td)"
    from solana_dexscreener_SomeD[OF this] show ?thesis
    proof
      assume "absorb (solana_dexscreener fl r) td = td"
      then show ?thesis using assms by simp
    next
      assume "\<exists>p fs. solana_pair_fields fl p = Some fs \<and> absorb (solana_dexscreener fl r) td = update td fs"
      then obtain p fs where f: "solana_pair_fields fl p = Some fs"
        and u: "absorb (solana_dexscreener fl r) td = update td fs" by blast
      from solana_pair_fields_SomeD[OF f] show ?thesis
        unfolding u by (auto simp: solana_record_def update_apply)
    qed
  qed
qed

lemma solana_record_jupiter:
  assumes "solana_record td"
  shows "solana_record (absorb (jupiter fl address r) td)"
  using absorb_cases[of "jupiter fl address r" td] assms
  by (auto dest!: jupiter_SomeD simp: solana_record_def update_apply)

lemma solana_record_solscan:
  assumes "solana_record td"
  shows "solana_record (absorb (solscan r) td)"
  using absorb_cases[of "solscan r" td] assms
  by (auto dest!: solscan_SomeD simp: solana_record_def update_apply)

lemma evm_record_dex:
  assumes "evm_record td"
  shows "evm_record (absorb (evm_dexscreener fl r) td)"
proof -
  from absorb_cases[of "evm_dexscreener fl r" td] show ?thesis
  proof
    assume "absorb (evm_dexscreener fl r) td = td"
    then show ?thesis using assms by simp
  next
    assume "evm_dexscreener fl r td = Some (absorb (evm_dexscreener fl r) td)"
    from evm_dexscreener_SomeD[OF this] show ?thesis
    proof
      assume "absorb (evm_dexscreener fl r) td = td"
      then show ?thesis using assms by simp
    next
      assume "\<exists>p fs. evm_pair_fields fl p = Some fs \<and> absorb (evm_dexscreener fl r) td = update td fs"
      then obtain p fs where f: "evm_pair_fields fl p = Some fs"
        and u: "absorb (evm_dexscreener fl r) td = update td fs" by blast
      from evm_pair_fields_SomeD[OF f] assms show ?thesis
        unfolding u by (auto simp: evm_record_def update_apply)
    qed
  qed
qed

lemma evm_record_coingecko:
  assumes "evm_record td"
  shows "evm_record (absorb (coingecko fl address r) td)"
  using absorb_cases[of "coingecko fl address r" td] assms
  by (auto dest!: coingecko_SomeD simp: evm_record_def update_apply)

lemma solana_record_result:
  "\<not> session_error net \<Longrightarrow> solana_record (snd (get_solana_token_data fl net address))"
proof -
  assume ok: "\<not> session_error net"
  let ?td1 = "absorb (solana_dexscreener fl (http_get net (dexscreener_url address))) solana_defaults"
  let ?td2 = "if \<not> succeeded ?td1
              then absorb (jupiter fl address (http_get net (jupiter_url address))) ?td1 else ?td1"
  have r1: "solana_record ?td1" by (rule solana_record_dex[OF solana_record_defaults])
  then have r2: "solana_record ?td2" by (simp add: solana_record_jupiter)
  then obtain nm where nm: "?td2 ''name'' = Some nm" by (auto simp: solana_record_def)
  have "snd (get_solana_token_data fl net address) =
     (if nm = JStr ''Unknown Token''
      then absorb (solscan (http_get net (solscan_url address))) ?td2 else ?td2)"
    using ok nm unfolding get_solana_token_data_def Let_def
    by (simp split: if_splits)
  then show ?thesis using r2 by (simp add: solana_record_solscan)
qed

lemma evm_record_result:
  "\<not> session_error net \<Longrightarrow> evm_record (snd (get_evm_token_data fl net address))"
  unfolding get_evm_token_data_def Let_def
  by (simp add: evm_record_dex evm_record_coingecko evm_record_defaults)

lemma no_data_steps:
  assumes "no_data r"
  shows "absorb (solana_dexscreener fl r) td = td" "absorb (evm_dexscreener fl r) td = td"
    "absorb (jupiter fl address r) td = td" "absorb (solscan r) td = td"
    "absorb (coingecko fl address r) td = td"
  using assms
  by (cases r; auto simp: absorb_def solana_dexscreener_def evm_dexscreener_def jupiter_def
        solscan_def coingecko_def)+

lemma solana_all_fail:
  assumes "\<not> session_error net" "\<forall>u. no_data (http_get net u)"
  shows "get_solana_token_data fl net address =
     ([dexscreener_url address, jupiter_url address, solscan_url address], solana_defaults)"
proof -
  have s: "\<not> succeeded solana_defaults" "solana_defaults ''name'' = Some (JStr ''Unknown Token'')"
    by (simp_all add: succeeded_def solana_defaults_def)
  show ?thesis
    unfolding get_solana_token_data_def Let_def
    using assms s by (simp add: no_data_steps)
qed

lemma evm_all_fail:
  assumes "\<not> session_error net" "\<forall>u. no_data (http_get net u)"
  shows "get_evm_token_data fl net address =
     ([dexscreener_url address, coingecko_url address], evm_defaults)"
proof -
  have s: "\<not> succeeded evm_defaults"
    by (simp_all add: succeeded_def evm_defaults_def)
  show ?thesis
    unfolding get_evm_token_data_def Let_def
    using assms s by (simp add: no_data_steps)
qed

lemma is_bool_error_record: "is_bool (error_record ''success'')"
  by (simp add: error_record_def)

text \<open>
  C2 (as amended). Neither resolver raises: each returns a record with the flag
  \<open>success\<close> on every address and every network. When the client session opens, the
  Solana record has a number under each of \<open>price\<close>, \<open>volume24h\<close>, \<open>liquidity\<close>, \<open>fdv\<close>,
  \<open>marketCap\<close>, \<open>priceChange1h\<close> and \<open>priceChange24h\<close>, and the EVM record under each of
  these but \<open>fdv\<close>, a key the EVM record never has; when every source gives nothing the
  records are the defaults, all numbers 0. When opening the session raises, the record of
  the outer handler is returned, which has the flag, the name and the symbol only.
\<close>

theorem resolve_never_raises:
  "is_bool (snd (get_solana_token_data fl net address) ''success'')
   \<and> is_bool (snd (get_evm_token_data fl net address) ''success'')
   \<and> (\<not> session_error net \<longrightarrow>
        solana_record (snd (get_solana_token_data fl net address))
        \<and> evm_record (snd (get_evm_token_data fl net address)))
   \<and> (\<not> session_error net \<and> (\<forall>u. no_data (http_get net u)) \<longrightarrow>
        snd (get_solana_token_data fl net address) = solana_defaults
        \<and> snd (get_evm_token_data fl net address) = evm_defaults)
   \<and> (session_error net \<longrightarrow>
        get_solana_token_data fl net address = ([], error_record)
        \<and> get_evm_token_data fl net address = ([], error_record))"
proof (cases "session_error net")
  case True
  then have "get_solana_token_data fl net address = ([], error_record)"
    "get_evm_token_data fl net address = ([], error_record)"
    by (simp_all add: get_solana_token_data_def get_evm_token_data_def)
  then show ?thesis using True is_bool_error_record by simp
next
  case False
  note s = solana_record_result[OF False, of fl address]
  note e = evm_record_result[OF False, of fl address]
  from s have "is_bool (snd (get_solana_token_data fl net address) ''success'')"
    by (simp add: solana_record_def)
  moreover from e have "is_bool (snd (get_evm_token_data fl net address) ''success'')"
    by (simp add: evm_record_def)
  ultimately show ?thesis
    using False s e solana_all_fail[OF False, of fl address] evm_all_fail[OF False, of fl address]
    by simp
qed

theorem resolve_never_raises_witness:
  "\<not> session_error \<lparr>session_error = False, http_get = (\<lambda>u. RequestError)\<rparr>
   \<and> (\<forall>u. no_data (http_get \<lparr>session_error = False, http_get = (\<lambda>u. RequestError)\<rparr> u))
   \<and> snd (get_solana_token_data (\<lambda>s. None)
            \<lparr>session_error = False, http_get = (\<lambda>u. RequestError)\<rparr>
            ''So11111111111111111111111111111111111111112'') ''price'' = Some (JNum 0)
   \<and> snd (get_solana_token_data (\<lambda>s. None)
            \<lparr>session_error = False, http_get = (\<lambda>u. RequestError)\<rparr>
            ''So11111111111111111111111111111111111111112'') ''success'' = Some (JBool False)
   \<and> snd (get_evm_token_data (\<lambda>s. None)
            \<lparr>session_error = False, http_get = (\<lambda>u. RequestError)\<rparr>
            ''0x00000000219ab540356cBB839Cbe05303d7705Fa'') ''marketCap'' = Some (JNum 0)
   \<and> session_error \<lparr>session_error = True, http_get = (\<lambda>u. RequestError)\<rparr>
   \<and> snd (get_solana_token_data (\<lambda>s. None)
            \<lparr>session_error = True, http_get = (\<lambda>u. RequestError)\<rparr>
            ''So11111111111111111111111111111111111111112'') ''price'' = None"
proof -
  let ?net = "\<lparr>session_error = False, http_get = (\<lambda>u. RequestError)\<rparr>"
  let ?bad = "\<lparr>session_error = True, http_get = (\<lambda>u. RequestError)\<rparr>"
  have a: "\<not> session_error ?net" and b: "\<forall>u. no_data (http_get ?net u)" by simp_all
  have c: "session_error ?bad" by simp
  from resolve_never_raises[of "\<lambda>s. None" ?net "''So11111111111111111111111111111111111111112''"] a b
  have "snd (get_solana_token_data (\<lambda>s. None) ?net ''So11111111111111111111111111111111111111112'')
          = solana_defaults" by blast
  moreover
  from resolve_never_raises[of "\<lambda>s. None" ?net "''0x00000000219ab540356cBB839Cbe05303d7705Fa''"] a b
  have "snd (get_evm_token_data (\<lambda>s. None) ?net ''0x00000000219ab540356cBB839Cbe05303d7705Fa'')
          = evm_defaults" by blast
  moreover
  from resolve_never_raises[of "\<lambda>s. None" ?bad "''So11111111111111111111111111111111111111112''"] c
  have "get_solana_token_data (\<lambda>s. None) ?bad ''So11111111111111111111111111111111111111112''
          = ([], error_record)" by blast
  ultimately show ?thesis
    using a b c by (simp add: solana_defaults_def evm_defaults_def error_record_def)
qed

text \<open>
  The claim as stated fails for the EVM resolver: with every request failing its record
  has no \<open>fdv\<close>.
\<close>

theorem resolve_never_raises_counterexample:
  "\<not> is_number (snd (get_evm_token_data (\<lambda>s. None)
        \<lparr>session_error = False, http_get = (\<lambda>u. RequestError)\<rparr>
        ''0x00000000219ab540356cBB839Cbe05303d7705Fa'') ''fdv'')"
proof -
  let ?net = "\<lparr>session_error = False, http_get = (\<lambda>u. RequestError)\<rparr>"
  have a: "\<not> session_error ?net" and b: "\<forall>u. no_data (http_get ?net u)" by simp_all
  have "snd (get_evm_token_data (\<lambda>s. None) ?net ''0x00000000219ab540356cBB839Cbe05303d7705Fa'')
          = evm_defaults"
    using evm_all_fail[OF a b] by simp
  then show ?thesis by (simp add: evm_defaults_def)
qed

subsection \<open>The selection of the most liquid pair\<close>











end
